theory Spec2Isabelle
  imports Complex_Main "HOL-Library.Multiset" "HOL-Library.Char_ord" "HOL-Library.List_Lexorder"
begin

section \<open>Data model\<close>

text \<open>
  Instants reported by the cluster (\<open>creationTimestamp\<close>, \<open>startTime\<close>) and the
  \<open>Timestamp\<close> column are whole seconds: Kubernetes serialises them with second
  resolution and the collectors write \<open>Timestamp\<close> with the format
  \<^verbatim>\<open>%Y-%m-%d %H:%M:%S\<close>. They are integers here (seconds since some epoch), so
  \<open>pd.to_datetime\<close> followed by \<open>strftime\<close> is the identity on them. The clock
  (\<open>datetime.now()\<close>, \<open>pd.Timestamp.now()\<close>) has a finer resolution and is a rational
  number of seconds. \<open>QueueTime\<close> is \<open>(start - created).total_seconds()\<close>, a whole
  number of seconds; means of queue times are rationals.

  A DataFrame is the list of its rows, in row order; \<open>df.empty\<close> is \<open>rows = []\<close>.
\<close>

record row =
  Timestamp :: int
  Namespace :: string
  Pod :: string
  QueueTime :: int
  CreationTime :: int
  StartTime :: int

text \<open>Rows of \<open>queue_time_history.csv\<close> (k8s-queue-monitor): the columns above and \<open>PodUID\<close>.\<close>

record sample = row +
  PodUID :: string

text \<open>
  Rows of \<open>QueueTimeStatsCollector.all_data\<close>: the columns above and the components of
  \<open>format_time_components\<close>. The column \<open>QueueTimeFormatted\<close> is the rendering
  \<^verbatim>\<open>{Days}d {Hours}h {Minutes}m {Seconds}s\<close> of the four components and is not kept
  separately.
\<close>

record stats_row = row +
  Days :: int
  Hours :: int
  Minutes :: int
  Seconds :: int

datatype py_error =
    CalledProcessError
  | JSONDecodeError
  | KeyError
  | DateParseError
  | ZeroDivisionError
  | ValueError

text \<open>
  What \<open>kubectl get pods --all-namespaces -o json\<close> gives back. A field of a pod that
  the code reads with \<open>pod['metadata'][...]\<close> is \<open>None\<close> when the key is absent (the
  subscript raises \<open>KeyError\<close>). \<open>startTime\<close> is read with \<open>.get\<close>: \<open>None\<close> stands
  for an absent or falsy value. A time string is either one that \<open>pd.to_datetime\<close>
  parses, to the given instant, or one that it rejects.
\<close>

datatype json_time = Instant int | Unparseable

record pod =
  pod_namespace :: "string option"
  pod_name :: "string option"
  pod_uid :: "string option"
  pod_creationTimestamp :: "json_time option"
  pod_startTime :: "json_time option"

datatype kubectl_result =
    ExitNonzero
  | NotJSON
  | NoItems
  | Items "pod list"

definition days7 :: rat where
  "days7 = 7 * 86400"

definition sanity_ceiling :: int where
  "sanity_ceiling = 30 * 24 * 60 * 60"

section \<open>k8s-queue-monitor/queue\_time\_collector.py\<close>

datatype printed =
    PLoaded nat
  | PCreatedNew
  | PErrorCollecting py_error
  | PUpdated nat
  | PTotal nat
  | PStarting int
  | PCompleted
  | PNoData
  | PStoredIn

text \<open>
  The collector object together with the file it owns: \<open>persistent_db\<close> is the content of
  \<open>queue_time_history.csv\<close>, \<open>None\<close> when the file does not exist.
\<close>

record collector =
  exclude_namespaces :: "string list"
  historical_data :: "sample list"
  persistent_db :: "sample list option"
  stdout :: "printed list"

text \<open>\<open>exclude_namespaces or ['kube-system']\<close>: \<open>None\<close> and the empty list are falsy.\<close>

definition or_default :: "string list option \<Rightarrow> string list" where
  "or_default e = (case e of None \<Rightarrow> [''kube-system''] | Some [] \<Rightarrow> [''kube-system''] | Some l \<Rightarrow> l)"

definition QueueTimeCollector_init :: "string list option \<Rightarrow> sample list option \<Rightarrow> collector" where
  "QueueTimeCollector_init excl file =
     (case file of
        Some rows \<Rightarrow>
          \<lparr>exclude_namespaces = or_default excl, historical_data = rows,
           persistent_db = file, stdout = [PLoaded (length rows)]\<rparr>
      | None \<Rightarrow>
          \<lparr>exclude_namespaces = or_default excl, historical_data = [],
           persistent_db = file, stdout = [PCreatedNew]\<rparr>)"

text \<open>
  The loop of \<open>collect_queue_times\<close> over \<open>pods_data['items']\<close>; \<open>acc\<close> is
  \<open>queue_times\<close>. An exception leaves the loop with the rows collected so far lost.
\<close>

fun collect_loop :: "string list \<Rightarrow> int \<Rightarrow> sample list \<Rightarrow> pod list \<Rightarrow> py_error + sample list" where
  "collect_loop excl ts acc [] = Inr acc"
| "collect_loop excl ts acc (p # ps) =
     (case pod_namespace p of
        None \<Rightarrow> Inl KeyError
      | Some namespace \<Rightarrow>
          if namespace \<in> set excl then collect_loop excl ts acc ps
          else (case pod_startTime p of
            None \<Rightarrow> collect_loop excl ts acc ps
          | Some st \<Rightarrow>
             (case pod_name p of
                None \<Rightarrow> Inl KeyError
              | Some name \<Rightarrow>
             (case pod_uid p of
                None \<Rightarrow> Inl KeyError
              | Some uid \<Rightarrow>
             (case pod_creationTimestamp p of
                None \<Rightarrow> Inl KeyError
              | Some Unparseable \<Rightarrow> Inl DateParseError
              | Some (Instant created_time) \<Rightarrow>
             (case st of
                Unparseable \<Rightarrow> Inl DateParseError
              | Instant start_time \<Rightarrow>
                 (let queue_time = start_time - created_time in
                  if queue_time > sanity_ceiling then collect_loop excl ts acc ps
                  else collect_loop excl ts
                         (acc @ [\<lparr>Timestamp = ts, Namespace = namespace, Pod = name,
                                  QueueTime = queue_time, CreationTime = created_time,
                                  StartTime = start_time, PodUID = uid\<rparr>]) ps)))))))"

text \<open>
  \<open>collect_queue_times\<close>: what is printed and the DataFrame returned. Every exception
  is caught by the single \<open>except Exception\<close> clause, which returns \<open>pd.DataFrame()\<close>.
\<close>

definition collect_queue_times :: "collector \<Rightarrow> kubectl_result \<Rightarrow> rat \<Rightarrow> printed list \<times> sample list" where
  "collect_queue_times c k now =
     (case k of
        ExitNonzero \<Rightarrow> ([PErrorCollecting CalledProcessError], [])
      | NotJSON \<Rightarrow> ([PErrorCollecting JSONDecodeError], [])
      | NoItems \<Rightarrow> ([PErrorCollecting KeyError], [])
      | Items pods \<Rightarrow>
          (case collect_loop (exclude_namespaces c) \<lfloor>now\<rfloor> [] pods of
             Inl e \<Rightarrow> ([PErrorCollecting e], [])
           | Inr queue_times \<Rightarrow> ([], queue_times)))"

definition update_persistent_storage :: "collector \<Rightarrow> sample list \<Rightarrow> rat \<Rightarrow> collector" where
  "update_persistent_storage c new_data now =
     (if new_data \<noteq> [] then
        (let cutoff_date = now - days7;
             hist = filter (\<lambda>s. of_int (Timestamp s) \<ge> cutoff_date) (historical_data c @ new_data)
         in c\<lparr>historical_data := hist, persistent_db := Some hist,
              stdout := stdout c @ [PUpdated (length new_data), PTotal (length hist)]\<rparr>)
      else c)"

text \<open>
  \<open>run_collection\<close>, one cycle. The clock is read when the cycle starts, inside
  \<open>collect_queue_times\<close> and inside \<open>update_persistent_storage\<close>.
\<close>

definition run_collection :: "collector \<Rightarrow> kubectl_result \<Rightarrow> rat \<Rightarrow> rat \<Rightarrow> rat \<Rightarrow> collector" where
  "run_collection c k t_start t_collect t_update =
     (let c1 = c\<lparr>stdout := stdout c @ [PStarting \<lfloor>t_start\<rfloor>]\<rparr>;
          (out, new_data) = collect_queue_times c1 k t_collect;
          c2 = c1\<lparr>stdout := stdout c1 @ out\<rparr>;
          c3 = (if new_data \<noteq> [] then
                  (let c' = update_persistent_storage c2 new_data t_update
                   in c'\<lparr>stdout := stdout c' @ [PCompleted]\<rparr>)
                else c2\<lparr>stdout := stdout c2 @ [PNoData]\<rparr>)
      in c3\<lparr>stdout := stdout c3 @ [PStoredIn]\<rparr>)"

section \<open>hack\_webapp.py and queue\_stats\_collector.py: QueueTimeStatsCollector\<close>

text \<open>
  The two files hold the same class; \<open>hack_webapp.py\<close> records each message with
  \<open>self.log\<close> where \<open>queue_stats_collector.py\<close> prints it. A message is kept as a
  constructor with the values it interpolates.
\<close>

datatype log_line =
    LRunningCommand
  | LSkippingPod string string int
  | LErrorKubectl
  | LCommandOutput
  | LErrorJSON
  | LUnexpectedError py_error
  | LCollecting int int
  | LCollected nat nat
  | LAverage rat
  | LMaximum int string string
  | LNoData
  | LWaiting int

text \<open>The calls that leave the process, in the order they are made.\<close>

datatype effect = RunKubectl | SleepFor int

record stats_collector =
  duration_mins :: int
  interval_secs :: int
  stats_exclude_namespaces :: "string list"
  all_data :: "stats_row list"
  logs :: "log_line list"
  effects :: "effect list"

text \<open>\<open>format_time_components\<close>: Python's \<open>divmod\<close> floors, as \<open>div\<close> and \<open>mod\<close> do.\<close>

definition format_time_components :: "int \<Rightarrow> int \<times> int \<times> int \<times> int" where
  "format_time_components seconds =
     (let days = seconds div 86400; remainder = seconds mod 86400;
          hours = remainder div 3600; remainder = remainder mod 3600;
          minutes = remainder div 60; seconds = remainder mod 60
      in (days, hours, minutes, seconds))"

text \<open>
  The loop of \<open>collect_queue_times\<close>; \<open>lg\<close> holds the messages logged inside the loop,
  which stay logged when a later pod raises.
\<close>

fun stats_collect_loop ::
  "string list \<Rightarrow> int \<Rightarrow> log_line list \<Rightarrow> stats_row list \<Rightarrow> pod list \<Rightarrow>
   log_line list \<times> (py_error + stats_row list)" where
  "stats_collect_loop excl ts lg acc [] = (lg, Inr acc)"
| "stats_collect_loop excl ts lg acc (p # ps) =
     (case pod_namespace p of
        None \<Rightarrow> (lg, Inl KeyError)
      | Some namespace \<Rightarrow>
          if namespace \<in> set excl then stats_collect_loop excl ts lg acc ps
          else (case pod_startTime p of
            None \<Rightarrow> stats_collect_loop excl ts lg acc ps
          | Some st \<Rightarrow>
             (case pod_name p of
                None \<Rightarrow> (lg, Inl KeyError)
              | Some name \<Rightarrow>
             (case pod_creationTimestamp p of
                None \<Rightarrow> (lg, Inl KeyError)
              | Some Unparseable \<Rightarrow> (lg, Inl DateParseError)
              | Some (Instant created_time) \<Rightarrow>
             (case st of
                Unparseable \<Rightarrow> (lg, Inl DateParseError)
              | Instant start_time \<Rightarrow>
                 (let queue_time = start_time - created_time in
                  if queue_time > sanity_ceiling
                  then stats_collect_loop excl ts (lg @ [LSkippingPod namespace name queue_time]) acc ps
                  else (case format_time_components queue_time of (d, h, m, s) \<Rightarrow>
                    stats_collect_loop excl ts lg
                      (acc @ [\<lparr>Timestamp = ts, Namespace = namespace, Pod = name,
                               QueueTime = queue_time, CreationTime = created_time,
                               StartTime = start_time, Days = d, Hours = h, Minutes = m,
                               Seconds = s\<rparr>]) ps)))))))"

text \<open>
  \<open>collect_queue_times\<close>: the messages logged and the DataFrame returned. Each of the
  three \<open>except\<close> clauses logs and returns \<open>pd.DataFrame()\<close>.
\<close>

definition stats_collect_queue_times ::
  "stats_collector \<Rightarrow> kubectl_result \<Rightarrow> rat \<Rightarrow> log_line list \<times> stats_row list" where
  "stats_collect_queue_times c k now =
     (case k of
        ExitNonzero \<Rightarrow> ([LRunningCommand, LErrorKubectl, LCommandOutput], [])
      | NotJSON \<Rightarrow> ([LRunningCommand, LErrorJSON], [])
      | NoItems \<Rightarrow> ([LRunningCommand, LUnexpectedError KeyError], [])
      | Items pods \<Rightarrow>
          (case stats_collect_loop (stats_exclude_namespaces c) \<lfloor>now\<rfloor> [] [] pods of
             (lg, Inl e) \<Rightarrow> (LRunningCommand # lg @ [LUnexpectedError e], [])
           | (lg, Inr queue_times) \<Rightarrow> (LRunningCommand # lg, queue_times)))"

text \<open>\<open>df['QueueTime'].mean()\<close> and the row at \<open>df['QueueTime'].idxmax()\<close> (the first maximum).\<close>

definition mean_QueueTime :: "'a row_scheme list \<Rightarrow> rat" where
  "mean_QueueTime df = of_int (sum_list (map QueueTime df)) / of_nat (length df)"

fun idxmax_row :: "'a row_scheme \<Rightarrow> 'a row_scheme list \<Rightarrow> 'a row_scheme" where
  "idxmax_row best [] = best"
| "idxmax_row best (r # rs) =
     (if QueueTime r > QueueTime best then idxmax_row r rs else idxmax_row best rs)"

text \<open>
  The body of the \<open>for\<close> loop of \<open>run_collection\<close> up to the wait: iteration \<open>i\<close> asks
  the cluster (\<open>kubectl i\<close> is the answer, \<open>clock i\<close> the time).
\<close>

definition collect_iteration ::
  "(int \<Rightarrow> kubectl_result) \<Rightarrow> (int \<Rightarrow> rat) \<Rightarrow> int \<Rightarrow> int \<Rightarrow> stats_collector \<Rightarrow> stats_collector" where
  "collect_iteration kubectl clock iterations i c =
     (let (lg, df) = stats_collect_queue_times c (kubectl i) (clock i);
          c1 = c\<lparr>logs := logs c @ [LCollecting i iterations] @ lg,
                 effects := effects c @ [RunKubectl]\<rparr>
      in (case df of
            [] \<Rightarrow> c1\<lparr>logs := logs c1 @ [LNoData]\<rparr>
          | r # rs \<Rightarrow>
              (let best = idxmax_row r rs
               in c1\<lparr>all_data := all_data c1 @ df,
                      logs := logs c1 @
                        [LCollected (length df) (card (Namespace ` set df)),
                         LAverage (mean_QueueTime df),
                         LMaximum (QueueTime best) (Namespace best) (Pod best)]\<rparr>)))"

text \<open>
  \<open>for i in range(1, iterations + 1)\<close>, entered at \<open>i\<close>. \<open>time.sleep\<close> raises
  \<open>ValueError\<close> on a negative length. The result is the collector as the loop leaves it
  and the exception that ended the loop, if any.
\<close>

function run_collection_loop ::
  "(int \<Rightarrow> kubectl_result) \<Rightarrow> (int \<Rightarrow> rat) \<Rightarrow> int \<Rightarrow> int \<Rightarrow> stats_collector \<Rightarrow>
   stats_collector \<times> py_error option" where
  "run_collection_loop kubectl clock iterations i c =
     (if i > iterations then (c, None)
      else
        (let c1 = collect_iteration kubectl clock iterations i c in
         if i < iterations then
           (let c2 = c1\<lparr>logs := logs c1 @ [LWaiting (interval_secs c1)]\<rparr> in
            if interval_secs c2 < 0 then (c2, Some ValueError)
            else run_collection_loop kubectl clock iterations (i + 1)
                   (c2\<lparr>effects := effects c2 @ [SleepFor (interval_secs c2)]\<rparr>))
         else run_collection_loop kubectl clock iterations (i + 1) c1))"
  by pat_completeness auto
termination
  by (relation "measure (\<lambda>(kubectl, clock, iterations, i, c). nat (iterations + 1 - i))") auto

declare run_collection_loop.simps [simp del]

text \<open>
  \<open>int(a / b)\<close> on integers: true division, then truncation towards zero. Division by
  zero raises before \<open>int\<close> is applied; \<open>run_collection\<close> below has that case.
\<close>

definition int_truediv :: "int \<Rightarrow> int \<Rightarrow> int" where
  "int_truediv a b = (if (a < 0) \<noteq> (b < 0) then - (\<bar>a\<bar> div \<bar>b\<bar>) else \<bar>a\<bar> div \<bar>b\<bar>)"

text \<open>\<open>QueueTimeStatsCollector.run_collection\<close>\<close>

definition stats_run_collection ::
  "(int \<Rightarrow> kubectl_result) \<Rightarrow> (int \<Rightarrow> rat) \<Rightarrow> stats_collector \<Rightarrow> stats_collector \<times> py_error option" where
  "stats_run_collection kubectl clock c =
     (if interval_secs c = 0 then (c, Some ZeroDivisionError)
      else (let iterations = int_truediv (duration_mins c * 60) (interval_secs c)
            in run_collection_loop kubectl clock iterations 1 c))"

section \<open>Sorting and grouping DataFrames\<close>

text \<open>
  \<open>DataFrame.sort_values\<close> is called with the default \<open>kind='quicksort'\<close>, which pandas
  documents as not stable: the result is the rows in the requested order, with rows of
  equal key in an order the library does not promise. The sort is therefore a parameter
  \<open>srt\<close> of every function that calls it, and \<open>sort_values_contract\<close> is all that is
  known of it.
\<close>

definition sort_values_contract :: "('a \<Rightarrow> 'a \<Rightarrow> bool) \<Rightarrow> ('a list \<Rightarrow> 'a list) \<Rightarrow> bool" where
  "sort_values_contract le srt \<longleftrightarrow> (\<forall>df. mset (srt df) = mset df \<and> sorted_wrt le (srt df))"

definition ascending :: "('a \<Rightarrow> 'k::linorder) \<Rightarrow> 'a \<Rightarrow> 'a \<Rightarrow> bool" where
  "ascending col a b \<longleftrightarrow> col a \<le> col b"

definition descending :: "('a \<Rightarrow> 'k::linorder) \<Rightarrow> 'a \<Rightarrow> 'a \<Rightarrow> bool" where
  "descending col a b \<longleftrightarrow> col b \<le> col a"



definition ties_reversed_ascending :: "('a \<Rightarrow> 'k::linorder) \<Rightarrow> 'a list \<Rightarrow> 'a list" where
  "ties_reversed_ascending col df = sort_key col (rev df)"

definition ties_rotated_descending :: "('a \<Rightarrow> 'k::linorder) \<Rightarrow> 'a list \<Rightarrow> 'a list" where
  "ties_rotated_descending col df = rev (sort_key col (rotate1 df))"



section \<open>k8s-queue-monitor/process\_logs.py\<close>





section \<open>generate\_statistics: statistics by namespace\<close>




section \<open>The schedule of a run, in the words of the specification\<close>


fun sampling_schedule :: "nat \<Rightarrow> int \<Rightarrow> effect list" where
  "sampling_schedule 0 secs = []"
| "sampling_schedule (Suc 0) secs = [RunKubectl]"
| "sampling_schedule (Suc (Suc n)) secs = RunKubectl # SleepFor secs # sampling_schedule (Suc n) secs"

section \<open>Example data\<close>

definition stale_sample :: sample where
  "stale_sample = \<lparr>Timestamp = 0, Namespace = ''a'', Pod = ''p0'', QueueTime = 10,
     CreationTime = -20, StartTime = -10, PodUID = ''1''\<rparr>"

definition fresh_sample :: sample where
  "fresh_sample = \<lparr>Timestamp = 999999, Namespace = ''b'', Pod = ''p1'', QueueTime = 5,
     CreationTime = 999000, StartTime = 999005, PodUID = ''2''\<rparr>"

text \<open>A collector started on a file whose only row was written more than seven days ago.\<close>

definition stale_store :: collector where
  "stale_store = QueueTimeCollector_init None (Some [stale_sample])"

text \<open>Pods: one started before it was created (clock skew), one in an excluded namespace,
  one that waited a second more than thirty days, one that waited ninety seconds, and one
  without a name.\<close>

definition skewed_pod :: pod where
  "skewed_pod = \<lparr>pod_namespace = Some ''default'', pod_name = Some ''web-0'', pod_uid = Some ''u-1'',
     pod_creationTimestamp = Some (Instant 100), pod_startTime = Some (Instant 40)\<rparr>"

definition system_pod :: pod where
  "system_pod = \<lparr>pod_namespace = Some ''kube-system'', pod_name = Some ''dns-0'', pod_uid = Some ''u-2'',
     pod_creationTimestamp = Some (Instant 100), pod_startTime = Some (Instant 130)\<rparr>"

definition ancient_pod :: pod where
  "ancient_pod = \<lparr>pod_namespace = Some ''default'', pod_name = Some ''old-0'', pod_uid = Some ''u-3'',
     pod_creationTimestamp = Some (Instant 0), pod_startTime = Some (Instant 2592001)\<rparr>"

definition queued_pod :: pod where
  "queued_pod = \<lparr>pod_namespace = Some ''default'', pod_name = Some ''job-0'', pod_uid = Some ''u-4'',
     pod_creationTimestamp = Some (Instant 100), pod_startTime = Some (Instant 190)\<rparr>"

definition nameless_pod :: pod where
  "nameless_pod = \<lparr>pod_namespace = Some ''default'', pod_name = None, pod_uid = Some ''u-5'',
     pod_creationTimestamp = Some (Instant 100), pod_startTime = Some (Instant 130)\<rparr>"

definition example_stats :: stats_collector where
  "example_stats = \<lparr>duration_mins = 5, interval_secs = 60,
     stats_exclude_namespaces = [''kube-system''], all_data = [], logs = [], effects = []\<rparr>"

text \<open>The messages logged by the \<open>except\<close> clauses of \<open>collect_queue_times\<close>.\<close>

fun is_error_line :: "log_line \<Rightarrow> bool" where
  "is_error_line LErrorKubectl = True"
| "is_error_line LErrorJSON = True"
| "is_error_line (LUnexpectedError e) = True"
| "is_error_line l = False"












section \<open>The retention window of the store\<close>

lemma stale_store_simps:
  "historical_data stale_store = [stale_sample]"
  "persistent_db stale_store = Some [stale_sample]"
  "exclude_namespaces stale_store = [''kube-system'']"
  by (simp_all add: stale_store_def QueueTimeCollector_init_def or_default_def)

text \<open>
  Claim C2, as stated, for every store and every \<open>now\<close>: after
  \<open>update_persistent_storage\<close> no retained sample is older than \<open>now\<close> minus seven days.
  It fails when the new data is empty: the guard \<open>if not new_data.empty\<close> skips the
  eviction, and a row written at second 0 is still held at second 1000000.
\<close>

theorem update_with_empty_keeps_stale_counterexample:
  "historical_data (update_persistent_storage stale_store [] 1000000) = [stale_sample]
   \<and> of_int (Timestamp stale_sample) < (1000000::rat) - days7"
  by (simp add: update_persistent_storage_def stale_store_simps stale_sample_def days7_def)

text \<open>
  Claim C2, amended: for every store, every \<open>now\<close> and every non-empty new data, after
  \<open>update_persistent_storage\<close> no retained sample has a timestamp before \<open>now\<close> minus
  seven days, every old or new sample inside the window is retained (with its
  multiplicity and order), and the file holds exactly the retained samples.
\<close>

theorem window_after_nonempty_update:
  "new_data \<noteq> [] \<Longrightarrow>
     (\<forall>s \<in> set (historical_data (update_persistent_storage c new_data now)).
         now - days7 \<le> of_int (Timestamp s))
   \<and> (\<forall>s \<in> set (historical_data c @ new_data).
         now - days7 \<le> of_int (Timestamp s) \<longrightarrow>
           s \<in> set (historical_data (update_persistent_storage c new_data now)))
   \<and> filter (\<lambda>s. now - days7 \<le> of_int (Timestamp s))
        (historical_data (update_persistent_storage c new_data now))
      = filter (\<lambda>s. now - days7 \<le> of_int (Timestamp s)) (historical_data c @ new_data)
   \<and> persistent_db (update_persistent_storage c new_data now)
      = Some (historical_data (update_persistent_storage c new_data now))"
  by (auto simp add: update_persistent_storage_def Let_def)

text \<open>The amended claim C2 at work: the stale row goes, the fresh one stays and is written.\<close>

theorem window_after_nonempty_update_witness:
  "[fresh_sample] \<noteq> []
   \<and> historical_data (update_persistent_storage stale_store [fresh_sample] 1000000) = [fresh_sample]
   \<and> fresh_sample \<in> set (historical_data stale_store @ [fresh_sample])
   \<and> (1000000::rat) - days7 \<le> of_int (Timestamp fresh_sample)
   \<and> persistent_db (update_persistent_storage stale_store [fresh_sample] 1000000) = Some [fresh_sample]"
  using window_after_nonempty_update [of "[fresh_sample]" stale_store 1000000]
  by (simp add: update_persistent_storage_def Let_def stale_store_simps stale_sample_def
        fresh_sample_def days7_def)

text \<open>
  Claim C10: when a cycle yields no sample, \<open>update_persistent_storage\<close> changes nothing
  at all, and \<open>run_collection\<close> (which prints, and does not even call it) leaves the
  historical data and the file as they were: nothing is evicted and nothing written, so
  samples older than the window stay.
\<close>

theorem empty_cycle_is_noop:
  "update_persistent_storage c [] now = c
   \<and> (snd (collect_queue_times (c\<lparr>stdout := stdout c @ [PStarting \<lfloor>t_start\<rfloor>]\<rparr>) k t_collect) = [] \<longrightarrow>
        historical_data (run_collection c k t_start t_collect t_update) = historical_data c
      \<and> persistent_db (run_collection c k t_start t_collect t_update) = persistent_db c
      \<and> exclude_namespaces (run_collection c k t_start t_collect t_update) = exclude_namespaces c)"
  by (simp add: update_persistent_storage_def run_collection_def Let_def split: prod.splits)

text \<open>Claim C10 on a failed cycle: the row written at second 0 outlives second 1000000.\<close>

theorem empty_cycle_is_noop_witness:
  "snd (collect_queue_times (stale_store\<lparr>stdout := stdout stale_store @ [PStarting \<lfloor>1000000\<rfloor>]\<rparr>) ExitNonzero 1000000) = []
   \<and> historical_data (run_collection stale_store ExitNonzero 1000000 1000000 1000000) = [stale_sample]
   \<and> persistent_db (run_collection stale_store ExitNonzero 1000000 1000000 1000000) = Some [stale_sample]
   \<and> of_int (Timestamp stale_sample) < (1000000::rat) - days7"
  using empty_cycle_is_noop [of stale_store 1000000 1000000 ExitNonzero 1000000 1000000]
  by (simp add: collect_queue_times_def stale_store_simps stale_sample_def days7_def)

text \<open>
  Claim C5, as stated: the constructor keeps only the rows inside the window relative
  to load time. It fails: \<open>__init__\<close> reads no clock and filters nothing, so a file row
  of second 0 is in the historical data of a collector built at second 1000000.
\<close>

theorem load_keeps_stale_counterexample:
  "stale_sample \<in> set (historical_data (QueueTimeCollector_init None (Some [stale_sample])))
   \<and> of_int (Timestamp stale_sample) < (1000000::rat) - days7"
  by (simp add: QueueTimeCollector_init_def stale_sample_def days7_def)

text \<open>
  Claim C5, amended: on construction with an existing file the store loads and retains
  every row of it, whatever its timestamp, and leaves the file as it is; rows older
  than the window are discarded by the eviction of the first non-empty update.
\<close>

theorem load_keeps_every_row:
  "historical_data (QueueTimeCollector_init excl (Some rows)) = rows
   \<and> persistent_db (QueueTimeCollector_init excl (Some rows)) = Some rows
   \<and> (new_data \<noteq> [] \<longrightarrow>
        historical_data (update_persistent_storage (QueueTimeCollector_init excl (Some rows)) new_data now)
        = filter (\<lambda>s. now - days7 \<le> of_int (Timestamp s)) (rows @ new_data))"
  by (simp add: QueueTimeCollector_init_def update_persistent_storage_def Let_def)

text \<open>The amended claim C5 on the stale file, followed by one fresh sample.\<close>

theorem load_keeps_every_row_witness:
  "historical_data (QueueTimeCollector_init None (Some [stale_sample])) = [stale_sample]
   \<and> [fresh_sample] \<noteq> []
   \<and> historical_data (update_persistent_storage (QueueTimeCollector_init None (Some [stale_sample])) [fresh_sample] 1000000)
      = [fresh_sample]"
  using load_keeps_every_row [of None "[stale_sample]" "[fresh_sample]" 1000000]
  by (simp add: stale_sample_def fresh_sample_def days7_def)

section \<open>The Sampler: collect\_queue\_times\<close>

lemmas example_pods_defs = skewed_pod_def system_pod_def ancient_pod_def queued_pod_def nameless_pod_def

lemma collect_loop_rows:
  "collect_loop excl ts acc ps = Inr out \<Longrightarrow>
   \<forall>r \<in> set acc. Namespace r \<notin> set excl \<and> QueueTime r \<le> sanity_ceiling \<Longrightarrow>
   \<forall>r \<in> set out. Namespace r \<notin> set excl \<and> QueueTime r \<le> sanity_ceiling"
proof (induction ps arbitrary: acc)
  case Nil
  then show ?case by simp
next
  case (Cons p ps)
  from Cons.prems show ?case
    by (auto simp: Let_def split: option.splits json_time.splits if_splits
          dest!: Cons.IH)
qed

lemma stats_collect_loop_rows:
  "stats_collect_loop excl ts lg acc ps = (lg', Inr out) \<Longrightarrow>
   \<forall>r \<in> set acc. Namespace r \<notin> set excl \<and> QueueTime r \<le> sanity_ceiling \<Longrightarrow>
   \<forall>r \<in> set out. Namespace r \<notin> set excl \<and> QueueTime r \<le> sanity_ceiling"
proof (induction ps arbitrary: acc lg)
  case Nil
  then show ?case by simp
next
  case (Cons p ps)
  from Cons.prems show ?case
    by (auto simp: Let_def split: option.splits json_time.splits if_splits prod.splits
          dest!: Cons.IH)
qed

lemma stats_collect_loop_logs:
  "stats_collect_loop excl ts lg acc ps = (lg', res) \<Longrightarrow>
   \<forall>l \<in> set lg. \<not> is_error_line l \<Longrightarrow> \<forall>l \<in> set lg'. \<not> is_error_line l"
proof (induction ps arbitrary: acc lg)
  case Nil
  then show ?case by simp
next
  case (Cons p ps)
  from Cons.prems show ?case
    by (auto simp: Let_def split: option.splits json_time.splits if_splits prod.splits
          dest!: Cons.IH)
qed

text \<open>
  Claim C1, as stated: no emitted sample has \<open>QueueTime < 0\<close>. It fails: the only test
  on the queue time is \<open>queue_time > 30 * 24 * 60 * 60\<close>, in every copy of
  \<open>collect_queue_times\<close>, so a pod whose \<open>startTime\<close> is sixty seconds before its
  \<open>creationTimestamp\<close> is emitted with \<open>QueueTime = -60\<close>.
\<close>

theorem negative_queue_time_emitted_counterexample:
  "map QueueTime (snd (collect_queue_times stale_store (Items [skewed_pod]) 1000000)) = [- 60]
   \<and> map QueueTime (snd (stats_collect_queue_times example_stats (Items [skewed_pod]) 1000000)) = [- 60]"
  by (simp add: collect_queue_times_def stats_collect_queue_times_def stale_store_simps
        example_stats_def skewed_pod_def sanity_ceiling_def format_time_components_def Let_def)

text \<open>
  Claim C1, amended: for every answer of the cluster, the output of
  \<open>collect_queue_times\<close> (both classes) holds no sample whose namespace is excluded and
  no sample whose queue time is above thirty days.
\<close>

theorem sampler_output_filtered:
  "(\<forall>r \<in> set (snd (collect_queue_times c k now)).
       Namespace r \<notin> set (exclude_namespaces c) \<and> QueueTime r \<le> sanity_ceiling)
   \<and> (\<forall>r \<in> set (snd (stats_collect_queue_times sc k now)).
       Namespace r \<notin> set (stats_exclude_namespaces sc) \<and> QueueTime r \<le> sanity_ceiling)"
proof (cases k)
  case (Items pods)
  have a: "\<forall>r \<in> set (snd (collect_queue_times c k now)).
       Namespace r \<notin> set (exclude_namespaces c) \<and> QueueTime r \<le> sanity_ceiling"
    using collect_loop_rows [of "exclude_namespaces c" "\<lfloor>now\<rfloor>" "[]" pods]
    by (auto simp: collect_queue_times_def Items split: sum.splits)
  have b: "\<forall>r \<in> set (snd (stats_collect_queue_times sc k now)).
       Namespace r \<notin> set (stats_exclude_namespaces sc) \<and> QueueTime r \<le> sanity_ceiling"
    using stats_collect_loop_rows [of "stats_exclude_namespaces sc" "\<lfloor>now\<rfloor>" "[]" "[]" pods]
    by (auto simp: stats_collect_queue_times_def Items split: sum.splits prod.splits)
  from a b show ?thesis by blast
qed (simp_all add: collect_queue_times_def stats_collect_queue_times_def)


text \<open>
  The amended claim C1 on three pods: the excluded one and the one above the ceiling
  are dropped, the third is emitted.
\<close>

theorem sampler_output_filtered_witness:
  "snd (collect_queue_times stale_store (Items [system_pod, ancient_pod, queued_pod]) 1000000)
     = [\<lparr>Timestamp = 1000000, Namespace = ''default'', Pod = ''job-0'', QueueTime = 90,
         CreationTime = 100, StartTime = 190, PodUID = ''u-4''\<rparr>]
   \<and> ''default'' \<notin> set (exclude_namespaces stale_store) \<and> 90 \<le> sanity_ceiling
   \<and> snd (stats_collect_queue_times example_stats (Items [system_pod, ancient_pod, queued_pod]) 1000000)
     = [\<lparr>Timestamp = 1000000, Namespace = ''default'', Pod = ''job-0'', QueueTime = 90,
         CreationTime = 100, StartTime = 190, Days = 0, Hours = 0, Minutes = 1, Seconds = 30\<rparr>]
   \<and> ''default'' \<notin> set (stats_exclude_namespaces example_stats)"
  using sampler_output_filtered [of stale_store "Items [system_pod, ancient_pod, queued_pod]" 1000000 example_stats]
  by (simp add: collect_queue_times_def stats_collect_queue_times_def stale_store_simps
        example_stats_def example_pods_defs sanity_ceiling_def format_time_components_def Let_def)

text \<open>
  Claim C6, as stated: a data-source failure gives a result distinguishable from a valid
  empty snapshot. It fails on the returned value: every \<open>except\<close> clause returns
  \<open>pd.DataFrame()\<close>, the very DataFrame that zero pods give.
\<close>

theorem failure_returns_same_as_empty_counterexample:
  "snd (collect_queue_times stale_store ExitNonzero 1000000)
     = snd (collect_queue_times stale_store (Items []) 1000000)
   \<and> snd (stats_collect_queue_times example_stats NotJSON 1000000)
     = snd (stats_collect_queue_times example_stats (Items []) 1000000)"
  by (simp add: collect_queue_times_def stats_collect_queue_times_def)

text \<open>
  Claim C6, amended: a data-source failure (nonzero exit or unparseable payload) returns
  the empty DataFrame, as a valid empty snapshot does; the two differ only in the
  messages printed or logged (an error message against none). Whenever an error message
  is produced, also by a pod in the middle of the payload, no sample is returned.
\<close>

theorem failure_only_in_messages:
  "(k \<in> {ExitNonzero, NotJSON} \<longrightarrow>
       snd (collect_queue_times c k now) = [] \<and> fst (collect_queue_times c k now) \<noteq> []
     \<and> snd (stats_collect_queue_times sc k now) = []
     \<and> (\<exists>l \<in> set (fst (stats_collect_queue_times sc k now)). is_error_line l))
   \<and> collect_queue_times c (Items []) now = ([], [])
   \<and> stats_collect_queue_times sc (Items []) now = ([LRunningCommand], [])
   \<and> (fst (collect_queue_times c k now) \<noteq> [] \<longrightarrow> snd (collect_queue_times c k now) = [])
   \<and> ((\<exists>l \<in> set (fst (stats_collect_queue_times sc k now)). is_error_line l) \<longrightarrow>
        snd (stats_collect_queue_times sc k now) = [])"
proof -
  have a: "k \<in> {ExitNonzero, NotJSON} \<longrightarrow>
       snd (collect_queue_times c k now) = [] \<and> fst (collect_queue_times c k now) \<noteq> []
     \<and> snd (stats_collect_queue_times sc k now) = []
     \<and> (\<exists>l \<in> set (fst (stats_collect_queue_times sc k now)). is_error_line l)"
    by (auto simp: collect_queue_times_def stats_collect_queue_times_def)
  have b: "collect_queue_times c (Items []) now = ([], [])"
    by (simp add: collect_queue_times_def)
  have c: "stats_collect_queue_times sc (Items []) now = ([LRunningCommand], [])"
    by (simp add: stats_collect_queue_times_def)
  have d: "fst (collect_queue_times c k now) \<noteq> [] \<longrightarrow> snd (collect_queue_times c k now) = []"
    by (cases k) (auto simp: collect_queue_times_def split: sum.splits)
  have e: "(\<exists>l \<in> set (fst (stats_collect_queue_times sc k now)). is_error_line l) \<longrightarrow>
        snd (stats_collect_queue_times sc k now) = []"
  proof (cases k)
    case (Items pods)
    obtain lg res where lr: "stats_collect_loop (stats_exclude_namespaces sc) \<lfloor>now\<rfloor> [] [] pods = (lg, res)"
      by (cases "stats_collect_loop (stats_exclude_namespaces sc) \<lfloor>now\<rfloor> [] [] pods")
    have "\<forall>l \<in> set lg. \<not> is_error_line l"
      using stats_collect_loop_logs [OF lr] by simp
    then show ?thesis
      by (cases res) (auto simp: stats_collect_queue_times_def Items lr)
  qed (simp_all add: stats_collect_queue_times_def)
  from a b c d e show ?thesis by blast
qed

text \<open>
  The amended claim C6 on a nonzero exit, and on a payload whose second pod has no name:
  the first pod's sample is not returned.
\<close>

theorem failure_only_in_messages_witness:
  "ExitNonzero \<in> {ExitNonzero, NotJSON}
   \<and> collect_queue_times stale_store ExitNonzero 1000000 = ([PErrorCollecting CalledProcessError], [])
   \<and> stats_collect_queue_times example_stats ExitNonzero 1000000
       = ([LRunningCommand, LErrorKubectl, LCommandOutput], [])
   \<and> is_error_line LErrorKubectl
   \<and> collect_queue_times stale_store (Items []) 1000000 = ([], [])
   \<and> stats_collect_queue_times example_stats (Items []) 1000000 = ([LRunningCommand], [])
   \<and> collect_queue_times stale_store (Items [queued_pod, nameless_pod]) 1000000
       = ([PErrorCollecting KeyError], [])
   \<and> stats_collect_queue_times example_stats (Items [queued_pod, nameless_pod]) 1000000
       = ([LRunningCommand, LUnexpectedError KeyError], [])
   \<and> is_error_line (LUnexpectedError KeyError)"
  using failure_only_in_messages [of ExitNonzero stale_store 1000000 example_stats]
    failure_only_in_messages [of "Items [queued_pod, nameless_pod]" stale_store 1000000 example_stats]
  by (simp add: collect_queue_times_def stats_collect_queue_times_def stale_store_simps
        example_stats_def example_pods_defs sanity_ceiling_def format_time_components_def Let_def)

section \<open>The collection loop: run\_collection\<close>

lemma collect_iteration_frame:
  "effects (collect_iteration kubectl clock n i c) = effects c @ [RunKubectl]"
  "interval_secs (collect_iteration kubectl clock n i c) = interval_secs c"
  "duration_mins (collect_iteration kubectl clock n i c) = duration_mins c"
  by (simp_all add: collect_iteration_def Let_def split: prod.splits list.splits)




lemma int_truediv_nonpos:
  "a \<le> 0 \<Longrightarrow> 0 < b \<Longrightarrow> int_truediv a b \<le> 0"
  "0 \<le> a \<Longrightarrow> b < 0 \<Longrightarrow> int_truediv a b \<le> 0"
  by (auto simp: int_truediv_def pos_imp_zdiv_nonneg_iff)

lemma int_truediv_both_negative:
  "a \<le> b \<Longrightarrow> b < 0 \<Longrightarrow> 1 \<le> int_truediv a b"
proof -
  assume ab: "a \<le> b" and b: "b < 0"
  then have "\<bar>b\<bar> \<le> \<bar>a\<bar>" "0 < \<bar>b\<bar>" by simp_all
  then have "1 \<le> \<bar>a\<bar> div \<bar>b\<bar>"
    by (metis div_self less_irrefl zdiv_mono1)
  with ab b show ?thesis by (simp add: int_truediv_def)
qed

lemma run_collection_loop_none: "n < i \<Longrightarrow> run_collection_loop kubectl clock n i c = (c, None)"
  by (subst run_collection_loop.simps) simp

lemma run_collection_loop_effects:
  "\<exists>tr. effects (fst (run_collection_loop kubectl clock n i c)) = effects c @ tr"
proof (induction kubectl clock n i c rule: run_collection_loop.induct)
  case (1 kubectl clock n i c)
  let ?c1 = "collect_iteration kubectl clock n i c"
  let ?c2 = "?c1\<lparr>logs := logs ?c1 @ [LWaiting (interval_secs ?c1)]\<rparr>"
  let ?c3 = "?c2\<lparr>effects := effects ?c2 @ [SleepFor (interval_secs ?c2)]\<rparr>"
  consider (over) "n < i" | (raise) "i \<le> n" "i < n" "interval_secs ?c2 < 0"
    | (sleep) "i \<le> n" "i < n" "\<not> interval_secs ?c2 < 0" | (last) "i \<le> n" "\<not> i < n"
    by linarith
  then show ?case
  proof cases
    case over
    then show ?thesis by (simp add: run_collection_loop_none)
  next
    case raise
    then have "run_collection_loop kubectl clock n i c = (?c2, Some ValueError)"
      by (subst run_collection_loop.simps) (simp add: Let_def)
    then show ?thesis by (simp add: collect_iteration_frame)
  next
    case sleep
    then have "run_collection_loop kubectl clock n i c = run_collection_loop kubectl clock n (i + 1) ?c3"
      by (subst run_collection_loop.simps) (simp add: Let_def)
    moreover from "1.IH"(1) [OF _ refl sleep(2) refl sleep(3)] sleep(1)
    obtain tr where "effects (fst (run_collection_loop kubectl clock n (i + 1) ?c3)) = effects ?c3 @ tr"
      by auto
    ultimately show ?thesis by (simp add: collect_iteration_frame)
  next
    case last
    then have "run_collection_loop kubectl clock n i c = run_collection_loop kubectl clock n (i + 1) ?c1"
      by (subst run_collection_loop.simps) (simp add: Let_def)
    moreover from "1.IH"(2) [OF _ refl last(2)] last(1)
    obtain tr where "effects (fst (run_collection_loop kubectl clock n (i + 1) ?c1)) = effects ?c1 @ tr"
      by auto
    ultimately show ?thesis by (simp add: collect_iteration_frame)
  qed
qed

lemma run_collection_loop_samples:
  assumes "i \<le> n"
  shows "\<exists>tr. effects (fst (run_collection_loop kubectl clock n i c)) = effects c @ RunKubectl # tr"
proof -
  let ?c1 = "collect_iteration kubectl clock n i c"
  let ?c2 = "?c1\<lparr>logs := logs ?c1 @ [LWaiting (interval_secs ?c1)]\<rparr>"
  let ?c3 = "?c2\<lparr>effects := effects ?c2 @ [SleepFor (interval_secs ?c2)]\<rparr>"
  consider (raise) "i < n" "interval_secs ?c2 < 0"
    | (sleep) "i < n" "\<not> interval_secs ?c2 < 0" | (last) "\<not> i < n"
    by linarith
  then show ?thesis
  proof cases
    case raise
    with assms have "run_collection_loop kubectl clock n i c = (?c2, Some ValueError)"
      by (subst run_collection_loop.simps) (simp add: Let_def)
    then show ?thesis by (simp add: collect_iteration_frame)
  next
    case sleep
    with assms have "run_collection_loop kubectl clock n i c = run_collection_loop kubectl clock n (i + 1) ?c3"
      by (subst run_collection_loop.simps) (simp add: Let_def)
    moreover obtain tr where "effects (fst (run_collection_loop kubectl clock n (i + 1) ?c3)) = effects ?c3 @ tr"
      using run_collection_loop_effects by blast
    ultimately show ?thesis by (simp add: collect_iteration_frame)
  next
    case last
    with assms have "run_collection_loop kubectl clock n i c = run_collection_loop kubectl clock n (i + 1) ?c1"
      by (subst run_collection_loop.simps) (simp add: Let_def)
    moreover obtain tr where "effects (fst (run_collection_loop kubectl clock n (i + 1) ?c1)) = effects ?c1 @ tr"
      using run_collection_loop_effects by blast
    ultimately show ?thesis by (simp add: collect_iteration_frame)
  qed
qed



lemma sampling_schedule_alternates:
  "Suc j < length (sampling_schedule n secs) \<Longrightarrow>
   (sampling_schedule n secs ! j = RunKubectl \<longrightarrow> sampling_schedule n secs ! Suc j = SleepFor secs)
   \<and> (sampling_schedule n secs ! j = SleepFor secs \<longrightarrow> sampling_schedule n secs ! Suc j = RunKubectl)"
proof (induction n secs arbitrary: j rule: sampling_schedule.induct)
  case (3 n secs)
  show ?case
  proof (cases j)
    case 0
    then show ?thesis by simp
  next
    case (Suc j1)
    show ?thesis
    proof (cases j1)
      case 0
      with Suc show ?thesis by (cases n) simp_all
    next
      case (Suc j2)
      with \<open>j = Suc j1\<close> "3.prems" have "Suc j2 < length (sampling_schedule (Suc n) secs)" by simp
      from "3.IH" [OF this] Suc \<open>j = Suc j1\<close> show ?thesis by simp
    qed
  qed
qed simp_all




text \<open>
  Claim C7, as stated: a duration or an interval that is not positive makes the loop
  fail with a configuration error before any sampling. It fails twice: no copy of
  \<open>run_collection\<close> checks its configuration, so a duration of zero gives a run that
  returns normally, and a duration of minus five minutes with an interval of minus
  sixty seconds samples the cluster.
\<close>

theorem no_configuration_check_counterexample:
  "stats_run_collection (\<lambda>i. Items []) (\<lambda>i. 0) (example_stats\<lparr>duration_mins := 0\<rparr>)
     = (example_stats\<lparr>duration_mins := 0\<rparr>, None)
   \<and> effects (fst (stats_run_collection (\<lambda>i. Items []) (\<lambda>i. 0)
        (example_stats\<lparr>duration_mins := - 5, interval_secs := - 60\<rparr>))) = [RunKubectl]"
  by (simp add: stats_run_collection_def int_truediv_def run_collection_loop.simps
        collect_iteration_def stats_collect_queue_times_def example_stats_def Let_def)

text \<open>
  Claim C7, amended: with an interval of zero \<open>run_collection\<close> raises
  \<open>ZeroDivisionError\<close> before any sampling, the collector untouched. With a positive
  interval and a duration that is not positive, or a negative interval and a duration
  that is not negative, it samples nothing and returns normally, with no error. With
  both negative and the duration at least as long as the interval, it samples.
\<close>

theorem nonpositive_configuration:
  "(interval_secs c = 0 \<longrightarrow> stats_run_collection kubectl clock c = (c, Some ZeroDivisionError))
   \<and> (0 < interval_secs c \<and> duration_mins c \<le> 0 \<longrightarrow> stats_run_collection kubectl clock c = (c, None))
   \<and> (interval_secs c < 0 \<and> 0 \<le> duration_mins c \<longrightarrow> stats_run_collection kubectl clock c = (c, None))
   \<and> (interval_secs c < 0 \<and> duration_mins c * 60 \<le> interval_secs c \<longrightarrow>
        (\<exists>tr. effects (fst (stats_run_collection kubectl clock c)) = effects c @ RunKubectl # tr))"
proof -
  have a: "interval_secs c = 0 \<longrightarrow> stats_run_collection kubectl clock c = (c, Some ZeroDivisionError)"
    by (simp add: stats_run_collection_def)
  have b: "0 < interval_secs c \<and> duration_mins c \<le> 0 \<longrightarrow> stats_run_collection kubectl clock c = (c, None)"
  proof
    assume h: "0 < interval_secs c \<and> duration_mins c \<le> 0"
    then have "int_truediv (duration_mins c * 60) (interval_secs c) \<le> 0"
      by (intro int_truediv_nonpos) simp_all
    with h show "stats_run_collection kubectl clock c = (c, None)"
      by (simp add: stats_run_collection_def run_collection_loop_none)
  qed
  have c: "interval_secs c < 0 \<and> 0 \<le> duration_mins c \<longrightarrow> stats_run_collection kubectl clock c = (c, None)"
  proof
    assume h: "interval_secs c < 0 \<and> 0 \<le> duration_mins c"
    then have "int_truediv (duration_mins c * 60) (interval_secs c) \<le> 0"
      by (intro int_truediv_nonpos) simp_all
    with h show "stats_run_collection kubectl clock c = (c, None)"
      by (simp add: stats_run_collection_def run_collection_loop_none)
  qed
  have d: "interval_secs c < 0 \<and> duration_mins c * 60 \<le> interval_secs c \<longrightarrow>
        (\<exists>tr. effects (fst (stats_run_collection kubectl clock c)) = effects c @ RunKubectl # tr)"
  proof
    assume h: "interval_secs c < 0 \<and> duration_mins c * 60 \<le> interval_secs c"
    then have "1 \<le> int_truediv (duration_mins c * 60) (interval_secs c)"
      by (intro int_truediv_both_negative) simp_all
    from run_collection_loop_samples [OF this] h
    show "\<exists>tr. effects (fst (stats_run_collection kubectl clock c)) = effects c @ RunKubectl # tr"
      by (simp add: stats_run_collection_def)
  qed
  from a b c d show ?thesis by blast
qed


text \<open>The amended claim C7 on four configurations.\<close>

theorem nonpositive_configuration_witness:
  "interval_secs (example_stats\<lparr>interval_secs := 0\<rparr>) = 0
   \<and> stats_run_collection (\<lambda>i. Items []) (\<lambda>i. 0) (example_stats\<lparr>interval_secs := 0\<rparr>)
       = (example_stats\<lparr>interval_secs := 0\<rparr>, Some ZeroDivisionError)
   \<and> 0 < interval_secs (example_stats\<lparr>duration_mins := - 5\<rparr>)
   \<and> duration_mins (example_stats\<lparr>duration_mins := - 5\<rparr>) \<le> 0
   \<and> stats_run_collection (\<lambda>i. Items []) (\<lambda>i. 0) (example_stats\<lparr>duration_mins := - 5\<rparr>)
       = (example_stats\<lparr>duration_mins := - 5\<rparr>, None)
   \<and> interval_secs (example_stats\<lparr>interval_secs := - 60\<rparr>) < 0
   \<and> 0 \<le> duration_mins (example_stats\<lparr>interval_secs := - 60\<rparr>)
   \<and> stats_run_collection (\<lambda>i. Items []) (\<lambda>i. 0) (example_stats\<lparr>interval_secs := - 60\<rparr>)
       = (example_stats\<lparr>interval_secs := - 60\<rparr>, None)
   \<and> duration_mins (example_stats\<lparr>duration_mins := - 5, interval_secs := - 60\<rparr>) * 60
       \<le> interval_secs (example_stats\<lparr>duration_mins := - 5, interval_secs := - 60\<rparr>)
   \<and> (\<exists>tr. effects (fst (stats_run_collection (\<lambda>i. Items []) (\<lambda>i. 0)
          (example_stats\<lparr>duration_mins := - 5, interval_secs := - 60\<rparr>))) = RunKubectl # tr)"
  using nonpositive_configuration [of "example_stats\<lparr>interval_secs := 0\<rparr>" "\<lambda>i. Items []" "\<lambda>i. 0"]
    nonpositive_configuration [of "example_stats\<lparr>duration_mins := - 5\<rparr>" "\<lambda>i. Items []" "\<lambda>i. 0"]
    nonpositive_configuration [of "example_stats\<lparr>interval_secs := - 60\<rparr>" "\<lambda>i. Items []" "\<lambda>i. 0"]
    nonpositive_configuration [of "example_stats\<lparr>duration_mins := - 5, interval_secs := - 60\<rparr>" "\<lambda>i. Items []" "\<lambda>i. 0"]
  by (simp add: example_stats_def)

section \<open>Deduplication: process\_logs.py\<close>




lemma ascending_eq: "ascending col = (\<lambda>a b. col a \<le> col b)"
  by (intro ext) (simp add: ascending_def)

lemma descending_eq: "descending col = (\<lambda>a b. col b \<le> col a)"
  by (intro ext) (simp add: descending_def)

lemma sort_key_ascending: "sorted_wrt (ascending col) (sort_key col df)"
  using sorted_sort_key [of col df] unfolding sorted_map ascending_eq .


lemma ties_reversed_ascending_contract:
  "sort_values_contract (ascending col) (ties_reversed_ascending col)"
  by (simp add: sort_values_contract_def ties_reversed_ascending_def sort_key_ascending)


















section \<open>Statistics by namespace\<close>


lemma sort_key_descending: "sorted_wrt (descending col) (rev (sort_key col df))"
  using sorted_sort_key [of col df] unfolding sorted_map descending_eq sorted_wrt_rev .


lemma mset_rotate1_eq: "mset (rotate1 df) = mset df"
  by (cases df) simp_all

lemma ties_rotated_descending_contract:
  "sort_values_contract (descending col) (ties_rotated_descending col)"
  by (simp add: sort_values_contract_def ties_rotated_descending_def sort_key_descending mset_rotate1_eq)










end
